theory Spec2Isabelle
  imports Complex_Main
begin

section \<open>LinearSimilarity: the combination evaluator of allennlp\<close>

text \<open>
  A shallow embedding of \<^verbatim>\<open>allennlp/modules/similarity_functions/linear.py\<close>.
  The methods keep their names, without the leading underscore that an Isabelle name
  cannot carry: \<^verbatim>\<open>_get_combination_dim\<close> is \<open>get_combination_dim\<close>, and so on.

  Python's \<^verbatim>\<open>int\<close> is \<^typ>\<open>int\<close>, a \<^verbatim>\<open>str\<close> is a \<^typ>\<open>string\<close>, and an exception is
  the left summand of a result \<open>error + 'a\<close>.
\<close>

subsection \<open>Errors\<close>

text \<open>
  \<open>ConfigurationError\<close> carries the message the source builds. \<open>IndexError\<close> is what
  Python raises for \<^verbatim>\<open>self._combinations[0]\<close> on an empty list, and \<open>TensorRuntimeError\<close>
  stands for any error raised by the tensor library itself.
\<close>

datatype error = ConfigurationError string | IndexError | TensorRuntimeError

definition raises_ConfigurationError :: "error + 'a \<Rightarrow> bool" where
  "raises_ConfigurationError r =
     (case r of Inl (ConfigurationError msg) \<Rightarrow> True | Inl _ \<Rightarrow> False | Inr _ \<Rightarrow> False)"

subsection \<open>The tensor library\<close>

text \<open>
  Modelled from the spec: the tensor runtime (\<^verbatim>\<open>torch\<close>) is an external collaborator
  and is not part of the sources. The spec describes it as supporting elementwise
  multiply, divide, add and subtract on equal-shaped vectors and concatenation along the
  trailing (feature) axis, and gives its examples on one-dimensional vectors. A tensor is
  therefore represented by its trailing axis, a list of elements; the element type is
  left open (any type with the four arithmetic operations), since nothing below depends
  on floating-point rounding. An elementwise operation on vectors of different lengths is
  an error of the runtime; concatenation along the trailing axis is list append.
\<close>

type_synonym 'a tensor = "'a list"

definition elementwise :: "('a \<Rightarrow> 'a \<Rightarrow> 'a) \<Rightarrow> 'a tensor \<Rightarrow> 'a tensor \<Rightarrow> error + 'a tensor" where
  "elementwise f a b =
     (if length a \<noteq> length b then Inl TensorRuntimeError else Inr (map2 f a b))"

definition torch_cat :: "'a tensor \<Rightarrow> 'a tensor \<Rightarrow> 'a tensor" where
  "torch_cat a b = a @ b"

text \<open>
  Modelled from the spec: \<^verbatim>\<open>torch.Tensor(n)\<close> allocates a vector of \<open>n\<close> elements and
  does not initialise them; \<open>mem\<close> is whatever the memory held. A negative size is an
  error of the runtime.
\<close>

definition torch_Tensor :: "(nat \<Rightarrow> 'a) \<Rightarrow> int \<Rightarrow> error + 'a tensor" where
  "torch_Tensor mem n =
     (if n < 0 then Inl TensorRuntimeError else Inr (map mem [0..<nat n]))"

subsection \<open>Python's \<^verbatim>\<open>str.split\<close>\<close>

text \<open>
  \<^verbatim>\<open>s.split(sep)\<close> for a one-character separator: the segments between the
  separators, empty ones included, so that the result is never the empty list and
  \<^verbatim>\<open>"".split(",")\<close> is \<^verbatim>\<open>[""]\<close>.
\<close>

fun split_str :: "char \<Rightarrow> string \<Rightarrow> string list" where
  "split_str sep [] = [[]]"
| "split_str sep (c # cs) =
     (if c = sep then [] # split_str sep cs
      else (case split_str sep cs of
              [] \<Rightarrow> [[c]]
            | w # ws \<Rightarrow> (c # w) # ws))"

subsection \<open>The dimension pass\<close>

text \<open>
  \<^verbatim>\<open>
  def _get_combination_dim(self, combination, tensor_1_dim, tensor_2_dim):
      if combination == 'x':
          return tensor_1_dim
      elif combination == 'y':
          return tensor_2_dim
      else:
          if len(combination) != 3:
              raise ConfigurationError("Invalid combination: " + combination)
          first_tensor_dim = self._get_combination_dim(combination[0], ...)
          second_tensor_dim = self._get_combination_dim(combination[2], ...)
          operation = combination[1]
          if first_tensor_dim != second_tensor_dim:
              raise ConfigurationError("Tensor dims must match for operation \"{}\"".format(operation))
          return first_tensor_dim
  \<close>
  The recursive calls are on the one-character strings \<^verbatim>\<open>combination[0]\<close> and
  \<^verbatim>\<open>combination[2]\<close>, and are made only when the string has three characters.
\<close>

function get_combination_dim :: "string \<Rightarrow> int \<Rightarrow> int \<Rightarrow> error + int" where
  "get_combination_dim combination tensor_1_dim tensor_2_dim =
     (if combination = ''x'' then Inr tensor_1_dim
      else if combination = ''y'' then Inr tensor_2_dim
      else if length combination \<noteq> 3
        then Inl (ConfigurationError (''Invalid combination: '' @ combination))
      else
        (case get_combination_dim [combination ! 0] tensor_1_dim tensor_2_dim of
           Inl e \<Rightarrow> Inl e
         | Inr first_tensor_dim \<Rightarrow>
             (case get_combination_dim [combination ! 2] tensor_1_dim tensor_2_dim of
                Inl e \<Rightarrow> Inl e
              | Inr second_tensor_dim \<Rightarrow>
                  (let operation = combination ! 1 in
                   if first_tensor_dim \<noteq> second_tensor_dim
                     then Inl (ConfigurationError
                            (''Tensor dims must match for operation '' @ [CHR 0x22, operation, CHR 0x22]))
                   else Inr first_tensor_dim))))"
  by pat_completeness auto
termination
  by (relation "measure (\<lambda>(combination, d1, d2). length combination)") auto

declare get_combination_dim.simps [simp del]

text \<open>
  \<^verbatim>\<open>
  def _get_combined_dim(self, tensor_1_dim, tensor_2_dim):
      combination_dims = [self._get_combination_dim(combination, tensor_1_dim, tensor_2_dim)
                          for combination in self._combinations]
      return sum(combination_dims)
  \<close>
  The list comprehension evaluates the expressions in list order and stops at the first
  one that raises.
\<close>

fun combination_dims :: "string list \<Rightarrow> int \<Rightarrow> int \<Rightarrow> error + int list" where
  "combination_dims [] tensor_1_dim tensor_2_dim = Inr []"
| "combination_dims (combination # rest) tensor_1_dim tensor_2_dim =
     (case get_combination_dim combination tensor_1_dim tensor_2_dim of
        Inl e \<Rightarrow> Inl e
      | Inr d \<Rightarrow>
          (case combination_dims rest tensor_1_dim tensor_2_dim of
             Inl e \<Rightarrow> Inl e
           | Inr ds \<Rightarrow> Inr (d # ds)))"

definition get_combined_dim :: "string list \<Rightarrow> int \<Rightarrow> int \<Rightarrow> error + int" where
  "get_combined_dim combinations tensor_1_dim tensor_2_dim =
     (case combination_dims combinations tensor_1_dim tensor_2_dim of
        Inl e \<Rightarrow> Inl e
      | Inr ds \<Rightarrow> Inr (sum_list ds))"

subsection \<open>The value pass\<close>

text \<open>
  \<^verbatim>\<open>
  def _get_combination(self, combination, tensor_1, tensor_2):
      if combination == 'x':
          return tensor_1
      elif combination == 'y':
          return tensor_2
      else:
          if len(combination) != 3:
              raise ConfigurationError("Invalid combination: " + combination)
          first_tensor = self._get_combination(combination[0], tensor_1, tensor_2)
          second_tensor = self._get_combination(combination[2], tensor_1, tensor_2)
          operation = combination[1]
          if operation == '*':
              return first_tensor * second_tensor
          elif operation == '/':
              return first_tensor / second_tensor
          elif operation == '+':
              return first_tensor + second_tensor
          elif operation == '-':
              return first_tensor - second_tensor
          else:
              raise ConfigurationError("Invalid operation: " + operation)
  \<close>
\<close>

function get_combination ::
  "string \<Rightarrow> ('a::{plus,minus,times,divide}) tensor \<Rightarrow> 'a tensor \<Rightarrow> error + 'a tensor" where
  "get_combination combination tensor_1 tensor_2 =
     (if combination = ''x'' then Inr tensor_1
      else if combination = ''y'' then Inr tensor_2
      else if length combination \<noteq> 3
        then Inl (ConfigurationError (''Invalid combination: '' @ combination))
      else
        (case get_combination [combination ! 0] tensor_1 tensor_2 of
           Inl e \<Rightarrow> Inl e
         | Inr first_tensor \<Rightarrow>
             (case get_combination [combination ! 2] tensor_1 tensor_2 of
                Inl e \<Rightarrow> Inl e
              | Inr second_tensor \<Rightarrow>
                  (let operation = combination ! 1 in
                   if operation = CHR ''*'' then elementwise (*) first_tensor second_tensor
                   else if operation = CHR ''/'' then elementwise divide first_tensor second_tensor
                   else if operation = CHR ''+'' then elementwise (+) first_tensor second_tensor
                   else if operation = CHR ''-'' then elementwise (-) first_tensor second_tensor
                   else Inl (ConfigurationError (''Invalid operation: '' @ [operation]))))))"
  by pat_completeness auto
termination
  by (relation "measure (\<lambda>(combination, t1, t2). length combination)") auto

declare get_combination.simps [simp del]

text \<open>
  \<^verbatim>\<open>
  def _combine_tensors(self, tensor_1, tensor_2):
      combined_tensor = self._get_combination(self._combinations[0], tensor_1, tensor_2)
      for combination in self._combinations[1:]:
          to_concatenate = self._get_combination(combination, tensor_1, tensor_2)
          combined_tensor = torch.cat([combined_tensor, to_concatenate], dim=-1)
      return combined_tensor
  \<close>
  \<open>combine_loop\<close> is the \<^verbatim>\<open>for\<close> loop, with \<open>combined_tensor\<close> as its accumulator.
\<close>

fun combine_loop ::
  "string list \<Rightarrow> ('a::{plus,minus,times,divide}) tensor \<Rightarrow> 'a tensor \<Rightarrow> 'a tensor
     \<Rightarrow> error + 'a tensor" where
  "combine_loop [] combined_tensor tensor_1 tensor_2 = Inr combined_tensor"
| "combine_loop (combination # rest) combined_tensor tensor_1 tensor_2 =
     (case get_combination combination tensor_1 tensor_2 of
        Inl e \<Rightarrow> Inl e
      | Inr to_concatenate \<Rightarrow>
          combine_loop rest (torch_cat combined_tensor to_concatenate) tensor_1 tensor_2)"

definition combine_tensors ::
  "string list \<Rightarrow> ('a::{plus,minus,times,divide}) tensor \<Rightarrow> 'a tensor \<Rightarrow> error + 'a tensor" where
  "combine_tensors combinations tensor_1 tensor_2 =
     (case combinations of
        [] \<Rightarrow> Inl IndexError
      | c0 # rest \<Rightarrow>
          (case get_combination c0 tensor_1 tensor_2 of
             Inl e \<Rightarrow> Inl e
           | Inr combined_tensor \<Rightarrow> combine_loop rest combined_tensor tensor_1 tensor_2))"

subsection \<open>The object\<close>

text \<open>
  \<^verbatim>\<open>
  def __init__(self, tensor_1_dim, tensor_2_dim, combination='x,y', activation=lambda x: x):
      super(LinearSimilarity, self).__init__()
      self._combinations = combination.split(',')
      combined_dim = self._get_combined_dim(tensor_1_dim, tensor_2_dim)
      self._weight_vector = Parameter(torch.Tensor(combined_dim))
      self._bias = Parameter(torch.Tensor(1))
      self._activation = activation
  \<close>
  The object is a record of the four fields the constructor assigns. \<open>mem_w\<close> and
  \<open>mem_b\<close> are the contents of the memory that the two allocations return.
\<close>

record 'a LinearSimilarity =
  combinations :: "string list"
  weight_vector :: "'a tensor"
  bias :: "'a tensor"
  activation :: "'a tensor \<Rightarrow> 'a tensor"

definition LinearSimilarity_init ::
  "(nat \<Rightarrow> 'a) \<Rightarrow> (nat \<Rightarrow> 'a) \<Rightarrow> int \<Rightarrow> int \<Rightarrow> string \<Rightarrow> ('a tensor \<Rightarrow> 'a tensor)
     \<Rightarrow> error + 'a LinearSimilarity" where
  "LinearSimilarity_init mem_w mem_b tensor_1_dim tensor_2_dim combination act =
     (let cs = split_str CHR '','' combination in
      case get_combined_dim cs tensor_1_dim tensor_2_dim of
        Inl e \<Rightarrow> Inl e
      | Inr combined_dim \<Rightarrow>
          (case torch_Tensor mem_w combined_dim of
             Inl e \<Rightarrow> Inl e
           | Inr w \<Rightarrow>
               (case torch_Tensor mem_b 1 of
                  Inl e \<Rightarrow> Inl e
                | Inr b \<Rightarrow>
                    Inr \<lparr>combinations = cs, weight_vector = w, bias = b, activation = act\<rparr>)))"

text \<open>
  \<^verbatim>\<open>
  def forward(self, tensor_1, tensor_2):
      combined_tensors = self._combine_tensors(tensor_1, tensor_2)
      if combined_tensors.dim() <= 2:
          dot_product = combined_tensors @ self._weight_vector
      else:
          ...
      return self._activation(dot_product + self._bias.expand_as(dot_product)).squeeze(dim=-1)
  \<close>
  \<open>forward\<close> returns the object together with its result, so that what the call does
  to the object is part of the model: it reads the fields and assigns none. The tensors
  of the model have one axis, so that the branch for more than two axes is never taken;
  the product of two vectors is their dot product, an error of the runtime when the
  lengths differ, and the result is kept as a vector of one element.
\<close>

definition torch_matmul ::
  "('a::{monoid_add,times}) tensor \<Rightarrow> 'a tensor \<Rightarrow> error + 'a tensor" where
  "torch_matmul a w =
     (if length a \<noteq> length w then Inl TensorRuntimeError
      else Inr [sum_list (map2 (*) a w)])"

definition forward ::
  "('a::{monoid_add,minus,times,divide}) LinearSimilarity \<Rightarrow> 'a tensor \<Rightarrow> 'a tensor
     \<Rightarrow> 'a LinearSimilarity \<times> (error + 'a tensor)" where
  "forward self tensor_1 tensor_2 =
     (self,
      case combine_tensors (combinations self) tensor_1 tensor_2 of
        Inl e \<Rightarrow> Inl e
      | Inr combined_tensors \<Rightarrow>
          (case torch_matmul combined_tensors (weight_vector self) of
             Inl e \<Rightarrow> Inl e
           | Inr dot_product \<Rightarrow>
               (case elementwise (+) dot_product (bias self) of
                  Inl e \<Rightarrow> Inl e
                | Inr s \<Rightarrow> Inr (activation self s))))"

text \<open>The object after a sequence of \<open>forward\<close> calls, one per pair of inputs.\<close>

fun forward_all ::
  "('a::{monoid_add,minus,times,divide}) LinearSimilarity \<Rightarrow> ('a tensor \<times> 'a tensor) list
     \<Rightarrow> 'a LinearSimilarity" where
  "forward_all self [] = self"
| "forward_all self ((tensor_1, tensor_2) # calls) =
     forward_all (fst (forward self tensor_1 tensor_2)) calls"

text \<open>
  The four operators that \<^verbatim>\<open>_get_combination\<close> compares \<^verbatim>\<open>combination[1]\<close> with.
\<close>

definition valid_operator :: "char \<Rightarrow> bool" where
  "valid_operator op = (op = CHR ''*'' \<or> op = CHR ''/'' \<or> op = CHR ''+'' \<or> op = CHR ''-'')"

section \<open>Properties of the two passes\<close>

subsection \<open>Unfolding the two recursions on short strings\<close>

lemma get_combination_dim_single:
  "get_combination_dim [a] d1 d2 =
     (if a = CHR ''x'' then Inr d1
      else if a = CHR ''y'' then Inr d2
      else Inl (ConfigurationError (''Invalid combination: '' @ [a])))"
  by (subst get_combination_dim.simps) simp

lemma get_combination_dim_three:
  "get_combination_dim [a, op, b] d1 d2 =
     (case get_combination_dim [a] d1 d2 of
        Inl e \<Rightarrow> Inl e
      | Inr first_tensor_dim \<Rightarrow>
          (case get_combination_dim [b] d1 d2 of
             Inl e \<Rightarrow> Inl e
           | Inr second_tensor_dim \<Rightarrow>
               if first_tensor_dim \<noteq> second_tensor_dim
                 then Inl (ConfigurationError
                        (''Tensor dims must match for operation '' @ [CHR 0x22, op, CHR 0x22]))
               else Inr first_tensor_dim))"
  by (subst get_combination_dim.simps) (simp add: Let_def split: sum.splits)

lemma get_combination_dim_malformed:
  assumes "c \<noteq> ''x''" and "c \<noteq> ''y''" and "length c \<noteq> 3"
  shows "get_combination_dim c d1 d2 = Inl (ConfigurationError (''Invalid combination: '' @ c))"
  using assms by (subst get_combination_dim.simps) simp

lemma get_combination_single:
  "get_combination [a] t1 t2 =
     (if a = CHR ''x'' then Inr t1
      else if a = CHR ''y'' then Inr t2
      else Inl (ConfigurationError (''Invalid combination: '' @ [a])))"
  by (subst get_combination.simps) simp

lemma get_combination_three:
  "get_combination [a, op, b] t1 t2 =
     (case get_combination [a] t1 t2 of
        Inl e \<Rightarrow> Inl e
      | Inr first_tensor \<Rightarrow>
          (case get_combination [b] t1 t2 of
             Inl e \<Rightarrow> Inl e
           | Inr second_tensor \<Rightarrow>
               if op = CHR ''*'' then elementwise (*) first_tensor second_tensor
               else if op = CHR ''/'' then elementwise divide first_tensor second_tensor
               else if op = CHR ''+'' then elementwise (+) first_tensor second_tensor
               else if op = CHR ''-'' then elementwise (-) first_tensor second_tensor
               else Inl (ConfigurationError (''Invalid operation: '' @ [op]))))"
  by (subst get_combination.simps) (simp add: Let_def split: sum.splits)

lemma get_combination_malformed:
  assumes "c \<noteq> ''x''" and "c \<noteq> ''y''" and "length c \<noteq> 3"
  shows "get_combination c t1 t2 = Inl (ConfigurationError (''Invalid combination: '' @ c))"
  using assms by (subst get_combination.simps) simp

lemma length_three_cases:
  assumes "length c = 3"
  obtains a op b where "c = [a, op, b]"
proof -
  from assms obtain a c1 where "c = a # c1" and "length c1 = 2"
    by (cases c) auto
  moreover then obtain op c2 where "c1 = op # c2" and "length c2 = 1"
    by (cases c1) auto
  moreover then obtain b where "c2 = [b]"
    by (cases c2) auto
  ultimately show thesis using that by simp
qed

lemma raises_ConfigurationError_simps [simp]:
  "raises_ConfigurationError (Inl (ConfigurationError m))"
  "\<not> raises_ConfigurationError (Inl IndexError)"
  "\<not> raises_ConfigurationError (Inl TensorRuntimeError)"
  "\<not> raises_ConfigurationError (Inr v)"
  by (simp_all add: raises_ConfigurationError_def)

text \<open>Every error of the dimension pass is a ConfigurationError.\<close>

lemma get_combination_dim_error:
  assumes "get_combination_dim c d1 d2 = Inl e"
  shows "\<exists>m. e = ConfigurationError m"
proof (cases "c = ''x'' \<or> c = ''y''")
  case True
  with assms show ?thesis by (auto simp: get_combination_dim_single)
next
  case False
  show ?thesis
  proof (cases "length c = 3")
    case True
    then obtain a op b where "c = [a, op, b]" by (rule length_three_cases)
    with assms show ?thesis
      by (auto simp: get_combination_dim_three get_combination_dim_single
               split: if_splits sum.splits)
  next
    case False
    with \<open>\<not> (c = ''x'' \<or> c = ''y'')\<close> assms show ?thesis
      by (auto simp: get_combination_dim_malformed)
  qed
qed

lemma combination_dims_error:
  "combination_dims cs d1 d2 = Inl e \<Longrightarrow> \<exists>m. e = ConfigurationError m"
proof (induction cs)
  case Nil
  then show ?case by simp
next
  case (Cons c cs)
  then show ?case
    by (auto split: sum.splits dest: get_combination_dim_error)
qed

lemma combination_dims_fails:
  "c \<in> set cs \<Longrightarrow> get_combination_dim c d1 d2 = Inl e \<Longrightarrow> \<exists>e'. combination_dims cs d1 d2 = Inl e'"
  by (induction cs) (auto split: sum.splits)

lemma get_combined_dim_raises:
  assumes "c \<in> set cs" and "raises_ConfigurationError (get_combination_dim c d1 d2)"
  shows "raises_ConfigurationError (get_combined_dim cs d1 d2)"
proof -
  from assms(2) obtain e where "get_combination_dim c d1 d2 = Inl e"
    by (cases "get_combination_dim c d1 d2") auto
  with assms(1) obtain e' where e': "combination_dims cs d1 d2 = Inl e'"
    using combination_dims_fails by blast
  then obtain m where "e' = ConfigurationError m"
    using combination_dims_error by blast
  with e' show ?thesis by (simp add: get_combined_dim_def)
qed

lemma combination_dims_succeeds:
  "\<forall>c\<in>set cs. \<exists>d. get_combination_dim c d1 d2 = Inr d \<Longrightarrow>
   combination_dims cs d1 d2 = Inr (map (\<lambda>c. projr (get_combination_dim c d1 d2)) cs)"
  by (induction cs) auto

lemma combination_dims_Inr:
  "combination_dims cs d1 d2 = Inr ds \<Longrightarrow>
   ds = map (\<lambda>c. projr (get_combination_dim c d1 d2)) cs \<and>
   (\<forall>c\<in>set cs. \<exists>d. get_combination_dim c d1 d2 = Inr d)"
  by (induction cs arbitrary: ds) (auto split: sum.splits)

subsection \<open>A token at a time: the value pass against the dimension pass\<close>

lemma elementwise_length:
  "elementwise f a b = Inr t \<Longrightarrow> length t = length a \<and> length t = length b"
  by (auto simp: elementwise_def split: if_splits)

lemma get_combination_length:
  assumes "get_combination_dim c d1 d2 = Inr d"
    and "int (length t1) = d1" and "int (length t2) = d2"
    and "get_combination c t1 t2 = Inr t"
  shows "int (length t) = d"
proof (cases "c = ''x'' \<or> c = ''y''")
  case True
  with assms show ?thesis
    by (auto simp: get_combination_dim_single get_combination_single)
next
  case False
  show ?thesis
  proof (cases "length c = 3")
    case True
    then obtain a op b where c: "c = [a, op, b]" by (rule length_three_cases)
    from assms(1) c obtain da where da: "get_combination_dim [a] d1 d2 = Inr da"
      and db: "get_combination_dim [b] d1 d2 = Inr da" and dd: "d = da"
      by (auto simp: get_combination_dim_three split: sum.splits if_splits)
    from assms(4) c obtain ta tb where ta: "get_combination [a] t1 t2 = Inr ta"
      and tb: "get_combination [b] t1 t2 = Inr tb"
      by (auto simp: get_combination_three split: sum.splits)
    from da ta assms(2,3) have la: "int (length ta) = da"
      by (auto simp: get_combination_dim_single get_combination_single split: if_splits)
    from assms(4) c ta tb have "length t = length ta"
      by (auto simp: get_combination_three split: if_splits dest: elementwise_length)
    with la dd show ?thesis by simp
  next
    case False
    with \<open>\<not> (c = ''x'' \<or> c = ''y'')\<close> assms(1) show ?thesis
      by (simp add: get_combination_dim_malformed)
  qed
qed

lemma get_combination_succeeds:
  assumes "get_combination_dim c d1 d2 = Inr d"
    and "int (length t1) = d1" and "int (length t2) = d2"
    and "length c = 3 \<longrightarrow> valid_operator (c ! 1)"
  shows "\<exists>t. get_combination c t1 t2 = Inr t"
proof (cases "c = ''x'' \<or> c = ''y''")
  case True
  then show ?thesis by (auto simp: get_combination_single)
next
  case False
  show ?thesis
  proof (cases "length c = 3")
    case True
    then obtain a op b where c: "c = [a, op, b]" by (rule length_three_cases)
    from assms(1) c obtain da where da: "get_combination_dim [a] d1 d2 = Inr da"
      and db: "get_combination_dim [b] d1 d2 = Inr da"
      by (auto simp: get_combination_dim_three split: sum.splits if_splits)
    from da obtain ta where ta: "get_combination [a] t1 t2 = Inr ta"
      by (auto simp: get_combination_dim_single get_combination_single split: if_splits)
    from db obtain tb where tb: "get_combination [b] t1 t2 = Inr tb"
      by (auto simp: get_combination_dim_single get_combination_single split: if_splits)
    from da ta assms(2,3) have la: "int (length ta) = da"
      by (auto simp: get_combination_dim_single get_combination_single split: if_splits)
    from db tb assms(2,3) have lb: "int (length tb) = da"
      by (auto simp: get_combination_dim_single get_combination_single split: if_splits)
    from la lb have "length ta = length tb" by simp
    moreover from assms(4) c have "valid_operator op" by simp
    ultimately show ?thesis
      using c ta tb by (auto simp: get_combination_three valid_operator_def elementwise_def)
  next
    case False
    with \<open>\<not> (c = ''x'' \<or> c = ''y'')\<close> assms(1) show ?thesis
      by (simp add: get_combination_dim_malformed)
  qed
qed

lemma get_combination_invalid_operator:
  assumes "length c = 3" and "\<not> valid_operator (c ! 1)"
  shows "raises_ConfigurationError (get_combination c t1 t2)"
proof -
  from assms(1) obtain a op b where c: "c = [a, op, b]" by (rule length_three_cases)
  with assms(2) show ?thesis
    by (auto simp: get_combination_three get_combination_single valid_operator_def)
qed

subsection \<open>The loop of the value pass\<close>

lemma combine_loop_concat:
  "\<forall>c\<in>set cs. \<exists>t. get_combination c t1 t2 = Inr t \<Longrightarrow>
   combine_loop cs acc t1 t2 = Inr (acc @ concat (map (\<lambda>c. projr (get_combination c t1 t2)) cs))"
  by (induction cs arbitrary: acc) (auto simp: torch_cat_def)

lemma combine_tensors_concat:
  assumes "cs \<noteq> []" and "\<forall>c\<in>set cs. \<exists>t. get_combination c t1 t2 = Inr t"
  shows "combine_tensors cs t1 t2 = Inr (concat (map (\<lambda>c. projr (get_combination c t1 t2)) cs))"
proof -
  from assms(1) obtain c0 rest where cs: "cs = c0 # rest" by (cases cs) auto
  with assms(2) obtain t0 where t0: "get_combination c0 t1 t2 = Inr t0" by auto
  from assms(2) cs have "\<forall>c\<in>set rest. \<exists>t. get_combination c t1 t2 = Inr t" by simp
  then show ?thesis
    using cs t0 by (simp add: combine_tensors_def combine_loop_concat)
qed

lemma combine_tensors_Inr:
  assumes "combine_tensors cs t1 t2 = Inr t"
  shows "cs \<noteq> [] \<and> (\<forall>c\<in>set cs. \<exists>t. get_combination c t1 t2 = Inr t)"
proof -
  have loop: "combine_loop rest acc t1 t2 = Inr t' \<Longrightarrow>
      \<forall>c\<in>set rest. \<exists>t. get_combination c t1 t2 = Inr t" for rest acc t'
    by (induction rest arbitrary: acc) (auto split: sum.splits)
  from assms show ?thesis
    by (cases cs) (auto simp: combine_tensors_def split: sum.splits dest: loop)
qed

text \<open>
  Whenever both passes succeed on a list, the length of the combined tensor is the
  combined dimension.
\<close>

lemma concat_length_sum:
  assumes "\<forall>c\<in>set cs. \<exists>d. get_combination_dim c d1 d2 = Inr d"
    and "\<forall>c\<in>set cs. \<exists>t. get_combination c t1 t2 = Inr t"
    and "int (length t1) = d1" and "int (length t2) = d2"
  shows "int (length (concat (map (\<lambda>c. projr (get_combination c t1 t2)) cs))) =
         sum_list (map (\<lambda>c. projr (get_combination_dim c d1 d2)) cs)"
  using assms(1,2)
proof (induction cs)
  case Nil
  then show ?case by simp
next
  case (Cons c cs)
  from Cons.prems obtain d t where "get_combination_dim c d1 d2 = Inr d"
    and "get_combination c t1 t2 = Inr t" by auto
  moreover then have "int (length t) = d"
    using get_combination_length assms(3,4) by blast
  ultimately show ?case using Cons by simp
qed

lemma combine_tensors_length:
  assumes "get_combined_dim cs d1 d2 = Inr d"
    and "int (length t1) = d1" and "int (length t2) = d2"
    and "combine_tensors cs t1 t2 = Inr t"
  shows "int (length t) = d"
proof -
  from assms(1) obtain ds where ds: "combination_dims cs d1 d2 = Inr ds" and d: "d = sum_list ds"
    by (auto simp: get_combined_dim_def split: sum.splits)
  from combination_dims_Inr [OF ds]
  have dsm: "ds = map (\<lambda>c. projr (get_combination_dim c d1 d2)) cs"
    and alld: "\<forall>c\<in>set cs. \<exists>d. get_combination_dim c d1 d2 = Inr d" by auto
  from combine_tensors_Inr [OF assms(4)]
  have ne: "cs \<noteq> []" and allt: "\<forall>c\<in>set cs. \<exists>t. get_combination c t1 t2 = Inr t" by auto
  from combine_tensors_concat [OF ne allt] assms(4)
  have "t = concat (map (\<lambda>c. projr (get_combination c t1 t2)) cs)" by simp
  with concat_length_sum [OF alld allt assms(2,3)] dsm d show ?thesis by simp
qed

text \<open>
  On a list that is not empty and whose three-character tokens all carry one of the four
  operators, a successful dimension pass means that the value pass succeeds too.
\<close>

lemma combine_tensors_succeeds:
  assumes "get_combined_dim cs d1 d2 = Inr d"
    and "int (length t1) = d1" and "int (length t2) = d2"
    and "cs \<noteq> []"
    and "\<forall>c\<in>set cs. length c = 3 \<longrightarrow> valid_operator (c ! 1)"
  shows "\<exists>t. combine_tensors cs t1 t2 = Inr t \<and> int (length t) = d"
proof -
  from assms(1) obtain ds where ds: "combination_dims cs d1 d2 = Inr ds"
    by (auto simp: get_combined_dim_def split: sum.splits)
  from combination_dims_Inr [OF ds]
  have alld: "\<forall>c\<in>set cs. \<exists>d. get_combination_dim c d1 d2 = Inr d" by auto
  have allt: "\<forall>c\<in>set cs. \<exists>t. get_combination c t1 t2 = Inr t"
  proof
    fix c assume c: "c \<in> set cs"
    with alld obtain dc where "get_combination_dim c d1 d2 = Inr dc" by auto
    moreover from c assms(5) have "length c = 3 \<longrightarrow> valid_operator (c ! 1)" by simp
    ultimately show "\<exists>t. get_combination c t1 t2 = Inr t"
      using get_combination_succeeds assms(2,3) by blast
  qed
  from combine_tensors_concat [OF assms(4) allt] obtain t
    where t: "combine_tensors cs t1 t2 = Inr t" by simp
  with combine_tensors_length [OF assms(1,2,3)] show ?thesis by simp
qed

subsection \<open>Splitting on commas\<close>

lemma split_str_nonempty: "split_str sep s \<noteq> []"
  by (induction s) (auto split: list.splits)

lemma split_str_append:
  "split_str sep (a @ sep # b) = split_str sep a @ split_str sep b"
proof (induction a)
  case Nil
  then show ?case by simp
next
  case (Cons c a)
  obtain w ws where "split_str sep a = w # ws"
    using split_str_nonempty [of sep a] by (cases "split_str sep a") auto
  with Cons show ?case by simp
qed

lemma split_str_trailing: "[] \<in> set (split_str sep (a @ [sep]))"
  by (simp add: split_str_append)

lemma split_str_double: "[] \<in> set (split_str sep (a @ sep # sep # b))"
  by (simp add: split_str_append)

subsection \<open>The constructor\<close>

lemma init_raises:
  assumes "c \<in> set (split_str CHR '','' combination)"
    and "raises_ConfigurationError (get_combination_dim c d1 d2)"
  shows "raises_ConfigurationError (LinearSimilarity_init mem_w mem_b d1 d2 combination act)"
proof -
  from get_combined_dim_raises [OF assms]
  obtain m where "get_combined_dim (split_str CHR '','' combination) d1 d2 = Inl (ConfigurationError m)"
    by (cases "get_combined_dim (split_str CHR '','' combination) d1 d2"; simp)
       (metis error.exhaust raises_ConfigurationError_simps(2,3))
  then show ?thesis by (simp add: LinearSimilarity_init_def)
qed

lemma init_Inr:
  assumes "LinearSimilarity_init mem_w mem_b d1 d2 combination act = Inr self"
  shows "combinations self = split_str CHR '','' combination"
    and "get_combined_dim (combinations self) d1 d2 = Inr (int (length (weight_vector self)))"
    and "length (bias self) = 1"
    and "activation self = act"
  using assms
  by (auto simp: LinearSimilarity_init_def Let_def torch_Tensor_def split: sum.splits if_splits)

lemma forward_all_self: "forward_all self calls = self"
  by (induction calls arbitrary: self) (auto simp: forward_def)

lemma init_raises_malformed:
  assumes "c \<in> set (split_str CHR '','' combination)"
    and "c \<noteq> ''x''" and "c \<noteq> ''y''" and "length c \<noteq> 3"
  shows "raises_ConfigurationError (LinearSimilarity_init mem_w mem_b d1 d2 combination act)"
  using assms(1) by (rule init_raises) (simp add: get_combination_dim_malformed assms(2-4))

lemma init_raises_mismatch:
  assumes "[a, op, b] \<in> set (split_str CHR '','' combination)"
    and "get_combination_dim [a] d1 d2 \<noteq> get_combination_dim [b] d1 d2"
  shows "raises_ConfigurationError (LinearSimilarity_init mem_w mem_b d1 d2 combination act)"
  using assms(1)
proof (rule init_raises)
  from assms(2) show "raises_ConfigurationError (get_combination_dim [a, op, b] d1 d2)"
    by (auto simp: get_combination_dim_three get_combination_dim_single split: if_splits)
qed

lemma init_combinations_nonempty:
  "LinearSimilarity_init mem_w mem_b d1 d2 combination act = Inr self \<Longrightarrow>
   combinations self \<noteq> []"
  by (simp add: init_Inr(1) split_str_nonempty)

section \<open>The claims\<close>

text \<open>
  C1. A three-character token whose middle character is none of \<open>*\<close>, \<open>/\<close>, \<open>+\<close>,
  \<open>-\<close> should raise ConfigurationError in both evaluations, even when the operand
  dimensions are equal. The value evaluation does (\<open>get_combination_invalid_operator\<close>);
  the dimension evaluation reads the operator for its message only, and on \<^verbatim>\<open>"x%y"\<close>
  with both dimensions 3 it returns 3.
\<close>

theorem bad_operator_dim_accepted:
  "get_combination_dim ''x%y'' 3 3 = Inr 3 \<and>
   get_combination ''x%y'' [1, 2, 3] [4, 5, 6 :: real]
     = Inl (ConfigurationError ''Invalid operation: %'')"
  by (simp add: get_combination_dim_three get_combination_dim_single
        get_combination_three get_combination_single)

text \<open>
  C2. On a list for which the dimension pass succeeds, and on tensors of those trailing
  lengths, the value pass should produce a tensor whose trailing length is the integer of
  the dimension pass. Whenever the value pass produces a tensor this is so
  (\<open>combine_tensors_length\<close>), and it does produce one when every three-character token
  carries one of the four operators (\<open>combine_tensors_succeeds\<close>); on \<^verbatim>\<open>["x%y"]\<close> with
  both dimensions 2 the dimension pass returns 2 and the value pass raises.
\<close>

theorem bad_operator_passes_disagree:
  "get_combined_dim [''x%y''] 2 2 = Inr 2 \<and>
   combine_tensors [''x%y''] [1, 2] [3, 4 :: real]
     = Inl (ConfigurationError ''Invalid operation: %'')"
  by (simp add: get_combined_dim_def combine_tensors_def get_combination_dim_three
        get_combination_dim_single get_combination_three get_combination_single)

text \<open>
  C3. A combination string with a malformed token, with an invalid operator or with a
  binary token whose operand dimensions differ should make the constructor raise
  ConfigurationError. It does for a malformed token and for differing dimensions
  (\<open>init_raises_malformed\<close>, \<open>init_raises_mismatch\<close>); with \<^verbatim>\<open>"x%y"\<close> and both
  dimensions 3 the constructor returns an object with a weight vector of three elements.
\<close>

theorem bad_operator_constructed:
  "LinearSimilarity_init (\<lambda>i. 0) (\<lambda>i. 0) 3 3 ''x%y'' (\<lambda>t. t)
     = Inr \<lparr>combinations = [''x%y''], weight_vector = [0, 0, 0 :: real], bias = [0],
            activation = (\<lambda>t. t)\<rparr>"
  by (simp add: LinearSimilarity_init_def get_combined_dim_def get_combination_dim_three
        get_combination_dim_single torch_Tensor_def upt_conv_Cons)

text \<open>
  C4. When no expression of the list fails, the dimension evaluation returns the sum of
  the dimensions of the expressions, in list order; for \<^verbatim>\<open>["x","y"]\<close> this is
  \<open>d1 + d2\<close>, and for \<^verbatim>\<open>["x","x*y","y"]\<close> with both dimensions 3 it is 9.
\<close>

theorem combined_dim_is_sum:
  "((\<forall>c\<in>set cs. \<exists>d. get_combination_dim c d1 d2 = Inr d) \<longrightarrow>
      get_combined_dim cs d1 d2
        = Inr (sum_list (map (\<lambda>c. projr (get_combination_dim c d1 d2)) cs))) \<and>
   get_combined_dim [''x'', ''y''] d1 d2 = Inr (d1 + d2) \<and>
   get_combined_dim [''x'', ''x*y'', ''y''] 3 3 = Inr 9"
  by (simp add: get_combined_dim_def combination_dims_succeeds get_combination_dim_three
        get_combination_dim_single)

theorem combined_dim_is_sum_witness:
  "get_combined_dim [''y'', ''x-y'', ''x''] 4 4 = Inr 12"
  using combined_dim_is_sum [of "[''y'', ''x-y'', ''x'']" 4 4]
  by (simp add: get_combination_dim_three get_combination_dim_single)

text \<open>
  C5. The token \<^verbatim>\<open>x\<close> evaluates to \<open>vector_x\<close>, the token \<^verbatim>\<open>y\<close> to \<open>vector_y\<close>, and a
  binary token applies the elementwise operator it names to its two resolved operands,
  position by position; \<^verbatim>\<open>["x*y"]\<close> on \<open>[2,3]\<close> and \<open>[4,5]\<close> gives \<open>[8,15]\<close>, and
  \<^verbatim>\<open>["x-y"]\<close> on \<open>[5,5]\<close> and \<open>[2,3]\<close> gives \<open>[3,2]\<close>.
\<close>

theorem combination_value:
  "get_combination ''x'' vector_x vector_y = Inr vector_x \<and>
   get_combination ''y'' vector_x vector_y = Inr vector_y \<and>
   (get_combination [a] vector_x vector_y = Inr ta \<and>
    get_combination [b] vector_x vector_y = Inr tb \<longrightarrow>
      get_combination [a, CHR ''*'', b] vector_x vector_y = elementwise (*) ta tb \<and>
      get_combination [a, CHR ''/'', b] vector_x vector_y = elementwise divide ta tb \<and>
      get_combination [a, CHR ''+'', b] vector_x vector_y = elementwise (+) ta tb \<and>
      get_combination [a, CHR ''-'', b] vector_x vector_y = elementwise (-) ta tb) \<and>
   (length ta = length tb \<longrightarrow> elementwise f ta tb = Inr (map2 f ta tb)) \<and>
   combine_tensors [''x*y''] [2, 3] [4, 5 :: real] = Inr [8, 15] \<and>
   combine_tensors [''x-y''] [5, 5] [2, 3 :: real] = Inr [3, 2]"
  by (simp add: get_combination_three get_combination_single combine_tensors_def
        elementwise_def)

theorem combination_value_witness:
  "get_combination ''x/y'' [6, 8] [3, 2 :: real] = Inr [2, 4] \<and>
   get_combination ''y+x'' [6, 8] [3, 2 :: real] = Inr [9, 10]"
  using combination_value [of "[6, 8 :: real]" "[3, 2]" "CHR ''x''" "[6, 8]" "CHR ''y''" "[3, 2]" "(/)"]
    combination_value [of "[6, 8 :: real]" "[3, 2]" "CHR ''y''" "[3, 2]" "CHR ''x''" "[6, 8]" "(+)"]
  by (simp add: get_combination_single)

text \<open>
  C6. For a binary expression whose operands resolve to the dimensions \<open>da\<close> and \<open>db\<close>,
  the dimension evaluation raises ConfigurationError when they differ and returns the
  common dimension when they are equal; \<^verbatim>\<open>"x*y"\<close> with both dimensions \<open>d\<close> returns
  \<open>d\<close>, and with different dimensions it raises.
\<close>

theorem binary_dim_must_match:
  "(get_combination_dim [a] d1 d2 = Inr da \<and> get_combination_dim [b] d1 d2 = Inr db \<longrightarrow>
      (da \<noteq> db \<longrightarrow> raises_ConfigurationError (get_combination_dim [a, op, b] d1 d2)) \<and>
      (da = db \<longrightarrow> get_combination_dim [a, op, b] d1 d2 = Inr da)) \<and>
   get_combination_dim ''x*y'' d d = Inr d \<and>
   (d1 \<noteq> d2 \<longrightarrow> raises_ConfigurationError (get_combination_dim ''x*y'' d1 d2))"
  by (simp add: get_combination_dim_three get_combination_dim_single)

theorem binary_dim_must_match_witness:
  "raises_ConfigurationError (get_combination_dim ''y+x'' 2 5) \<and>
   get_combination_dim ''y+x'' 7 7 = Inr 7 \<and>
   raises_ConfigurationError (get_combination_dim ''x*y'' 2 5)"
  using binary_dim_must_match [of "CHR ''y''" 2 5 5 "CHR ''x''" 2 "CHR ''+''"]
    binary_dim_must_match [of "CHR ''y''" 7 7 7 "CHR ''x''" 7 "CHR ''+''"]
  by (simp add: get_combination_dim_single)

text \<open>
  C7. The value evaluation concatenates the results of the expressions along the trailing
  axis in the order of the list; \<^verbatim>\<open>"x,y"\<close> gives \<open>vector_x\<close> followed by \<open>vector_y\<close> and
  \<^verbatim>\<open>"y,x"\<close> gives \<open>vector_y\<close> followed by \<open>vector_x\<close>. The list of an object is never
  empty (\<open>init_combinations_nonempty\<close>).
\<close>

theorem concatenation_in_list_order:
  "(cs \<noteq> [] \<and> (\<forall>c\<in>set cs. \<exists>t. get_combination c vector_x vector_y = Inr t) \<longrightarrow>
      combine_tensors cs vector_x vector_y
        = Inr (concat (map (\<lambda>c. projr (get_combination c vector_x vector_y)) cs))) \<and>
   combine_tensors [''x'', ''y''] vector_x vector_y = Inr (vector_x @ vector_y) \<and>
   combine_tensors [''y'', ''x''] vector_x vector_y = Inr (vector_y @ vector_x)"
  by (simp add: combine_tensors_concat)
     (simp add: combine_tensors_def get_combination_single torch_cat_def)

theorem concatenation_in_list_order_witness:
  "combine_tensors [''y'', ''x*x'', ''x''] [1, 2] [3, 4, 5 :: real] = Inr [3, 4, 5, 1, 4, 1, 2]"
  using concatenation_in_list_order [of "[''y'', ''x*x'', ''x'']" "[1, 2 :: real]" "[3, 4, 5]"]
  by (simp add: get_combination_three get_combination_single elementwise_def)

text \<open>
  C8. A token that is neither \<^verbatim>\<open>x\<close> nor \<^verbatim>\<open>y\<close> nor three characters long makes both
  the dimension evaluation and the value evaluation raise ConfigurationError, with the
  message \<^verbatim>\<open>Invalid combination: \<close> followed by the token.
\<close>

theorem malformed_token_raises:
  assumes "combination \<noteq> ''x''" and "combination \<noteq> ''y''" and "length combination \<noteq> 3"
  shows "get_combination_dim combination d1 d2
           = Inl (ConfigurationError (''Invalid combination: '' @ combination)) \<and>
         get_combination combination t1 t2
           = Inl (ConfigurationError (''Invalid combination: '' @ combination)) \<and>
         raises_ConfigurationError (get_combination_dim combination d1 d2) \<and>
         raises_ConfigurationError (get_combination combination t1 t2)"
  using assms by (simp add: get_combination_dim_malformed get_combination_malformed)

theorem malformed_token_raises_witness:
  "get_combination_dim ''xy'' 2 2 = Inl (ConfigurationError ''Invalid combination: xy'') \<and>
   get_combination ''z'' [1, 2] [3, 4 :: real] = Inl (ConfigurationError ''Invalid combination: z'')"
  using malformed_token_raises [of "''xy''" 2 2 "[]::real list" "[]"]
    malformed_token_raises [of "''z''" 2 2 "[1, 2 :: real]" "[3, 4]"]
  by simp

text \<open>
  C9. After a successful construction, the length of the weight vector is the sum of the
  dimensions of the listed expressions, in list order; \<open>forward\<close> leaves the object as
  it is, so this still holds after any sequence of calls.
\<close>

theorem weight_vector_dim:
  assumes "LinearSimilarity_init mem_w mem_b d1 d2 combination act = Inr self"
  shows "combinations self = split_str CHR '','' combination \<and>
         (\<forall>c\<in>set (combinations self). \<exists>d. get_combination_dim c d1 d2 = Inr d) \<and>
         int (length (weight_vector self))
           = sum_list (map (\<lambda>c. projr (get_combination_dim c d1 d2)) (combinations self)) \<and>
         forward_all self calls = self \<and>
         int (length (weight_vector (forward_all self calls)))
           = sum_list (map (\<lambda>c. projr (get_combination_dim c d1 d2))
               (combinations (forward_all self calls)))"
proof -
  from init_Inr(2) [OF assms] obtain ds
    where ds: "combination_dims (combinations self) d1 d2 = Inr ds"
      and len: "int (length (weight_vector self)) = sum_list ds"
    by (auto simp: get_combined_dim_def split: sum.splits)
  from combination_dims_Inr [OF ds] len init_Inr(1) [OF assms]
  show ?thesis by (simp add: forward_all_self)
qed

theorem weight_vector_dim_witness:
  "LinearSimilarity_init (\<lambda>i. 0) (\<lambda>i. 0) 3 3 ''x,x*y,y'' (\<lambda>t. t)
     = Inr \<lparr>combinations = [''x'', ''x*y'', ''y''],
            weight_vector = [0, 0, 0, 0, 0, 0, 0, 0, 0 :: real], bias = [0],
            activation = (\<lambda>t. t)\<rparr> \<and>
   forward_all \<lparr>combinations = [''x'', ''x*y'', ''y''],
            weight_vector = [0, 0, 0, 0, 0, 0, 0, 0, 0 :: real], bias = [0],
            activation = (\<lambda>t. t)\<rparr> [([1, 2, 3], [4, 5, 6])]
     = \<lparr>combinations = [''x'', ''x*y'', ''y''],
            weight_vector = [0, 0, 0, 0, 0, 0, 0, 0, 0 :: real], bias = [0],
            activation = (\<lambda>t. t)\<rparr> \<and>
   sum_list (map (\<lambda>c. projr (get_combination_dim c 3 3)) [''x'', ''x*y'', ''y'']) = 9"
proof -
  have h: "LinearSimilarity_init (\<lambda>i. 0) (\<lambda>i. 0) 3 3 ''x,x*y,y'' (\<lambda>t. t)
     = Inr \<lparr>combinations = [''x'', ''x*y'', ''y''],
            weight_vector = [0, 0, 0, 0, 0, 0, 0, 0, 0 :: real], bias = [0],
            activation = (\<lambda>t. t)\<rparr>"
    by (simp add: LinearSimilarity_init_def get_combined_dim_def get_combination_dim_three
          get_combination_dim_single torch_Tensor_def upt_conv_Cons)
  from weight_vector_dim [OF h, of "[([1, 2, 3], [4, 5, 6])]"] h show ?thesis
    by simp
qed

text \<open>
  C10. Constructing the object with the empty combination string raises
  ConfigurationError, and so does any combination string with an empty segment, such as
  \<^verbatim>\<open>"x,,y"\<close> or one that ends with a comma.
\<close>

theorem empty_segment_raises:
  "raises_ConfigurationError (LinearSimilarity_init mem_w mem_b d1 d2 '''' act) \<and>
   raises_ConfigurationError (LinearSimilarity_init mem_w mem_b d1 d2 ''x,,y'' act) \<and>
   raises_ConfigurationError (LinearSimilarity_init mem_w mem_b d1 d2 (a @ '','') act) \<and>
   raises_ConfigurationError (LinearSimilarity_init mem_w mem_b d1 d2 (a @ '',,'' @ b) act) \<and>
   ([] \<in> set (split_str CHR '','' combination) \<longrightarrow>
      raises_ConfigurationError (LinearSimilarity_init mem_w mem_b d1 d2 combination act))"
proof -
  have empty: "raises_ConfigurationError (get_combination_dim [] d1 d2)"
    by (simp add: get_combination_dim_malformed)
  have gen: "[] \<in> set (split_str CHR '','' s) \<Longrightarrow>
      raises_ConfigurationError (LinearSimilarity_init mem_w mem_b d1 d2 s act)" for s
    using init_raises empty by blast
  have "[] \<in> set (split_str CHR '','' '''')" by simp
  moreover have "[] \<in> set (split_str CHR '','' ''x,,y'')" by simp
  moreover have "[] \<in> set (split_str CHR '','' (a @ '',''))"
    using split_str_trailing by simp
  moreover have "[] \<in> set (split_str CHR '','' (a @ '',,'' @ b))"
    using split_str_double [of "CHR '',''" a b] by simp
  ultimately show ?thesis using gen by blast
qed

theorem empty_segment_raises_witness:
  "raises_ConfigurationError (LinearSimilarity_init (\<lambda>i. 0 :: real) (\<lambda>i. 0) 2 3 '',x'' (\<lambda>t. t))"
  using empty_segment_raises [of "\<lambda>i. 0 :: real" "\<lambda>i. 0" 2 3 "\<lambda>t. t" "[]" "[]" "'',x''"]
  by simp

end
